theory Spec2Isabelle
  imports Complex_Main
begin

section \<open>The MQTT test client of \<open>src/App.jsx\<close>\<close>

text \<open>
  The component keeps its state in React hooks and changes it from two button handlers
  (\<open>connect\<close>, \<open>disconnect\<close>), from the callbacks it registers on the MQTT client, and from
  \<open>parseMessage\<close>, which turns a text payload into a sample of the chart's series.
  Each of these is a function from the state before to the state after.

  A JavaScript string is a sequence of UTF-16 code units. Here a \<^typ>\<open>string\<close> stands
  for a JavaScript string whose code units are all below 256, the character
  \<^term>\<open>c::char\<close> being the code unit \<^term>\<open>of_char c :: nat\<close> (U+0000 to U+00FF).
  The string operations below are the ECMAScript ones on that range.
\<close>

subsection \<open>String operations of the language\<close>

text \<open>
  \<open>String.prototype.toLowerCase\<close>: below U+0100 the letters with a lower-case partner
  are A to Z and U+00C0 to U+00DE without the multiplication sign U+00D7; the partner is
  32 code units further on.
\<close>

definition lower_char :: "char \<Rightarrow> char" where
  "lower_char c =
     (let n = (of_char c :: nat)
      in if (65 \<le> n \<and> n \<le> 90) \<or> (192 \<le> n \<and> n \<le> 222 \<and> n \<noteq> 215)
         then char_of (n + 32) else c)"

definition toLowerCase :: "string \<Rightarrow> string" where
  "toLowerCase s = map lower_char s"

text \<open>
  \<open>String.prototype.startsWith\<close> and \<open>String.prototype.includes\<close>, both with the
  default position 0.
\<close>

definition startsWith :: "string \<Rightarrow> string \<Rightarrow> bool" where
  "startsWith s p = (take (length p) s = p)"

fun includes_str :: "string \<Rightarrow> string \<Rightarrow> bool" where
  "includes_str [] p = (p = [])"
| "includes_str (x # xs) p = (startsWith (x # xs) p \<or> includes_str xs p)"

text \<open>
  \<open>String.prototype.split\<close> with a separator of one character and no limit: the pieces
  between the separators, in order; a string without the separator is its own only piece,
  and the empty string gives one empty piece.
\<close>

fun split_str :: "char \<Rightarrow> string \<Rightarrow> string list" where
  "split_str sep [] = [[]]"
| "split_str sep (x # xs) =
     (if x = sep then [] # split_str sep xs
      else (case split_str sep xs of [] \<Rightarrow> [[x]] | y # ys \<Rightarrow> (x # y) # ys))"

text \<open>
  Reading an array at an index: the element, or \<open>undefined\<close> (here \<^term>\<open>None\<close>) past the
  end.
\<close>

definition at_index :: "'a list \<Rightarrow> nat \<Rightarrow> 'a option" where
  "at_index xs i = (if i < length xs then Some (xs ! i) else None)"

text \<open>
  White space and line terminators, as \<open>String.prototype.trim\<close> and the conversion of a
  string to a number strip them: TAB, LF, VT, FF, CR, SPACE and NO-BREAK SPACE are the
  ones below U+0100.
\<close>

definition is_space :: "char \<Rightarrow> bool" where
  "is_space c \<longleftrightarrow> c \<in> set [CHR 0x09, CHR 0x0A, CHR 0x0B, CHR 0x0C, CHR 0x0D, CHR 0x20, CHR 0xA0]"

definition trim :: "string \<Rightarrow> string" where
  "trim s = rev (dropWhile is_space (rev (dropWhile is_space s)))"

subsection \<open>Numbers and the conversion \<open>Number(string)\<close>\<close>

text \<open>
  A number is NaN, an infinity, or a finite value. \<^term>\<open>Val q\<close> carries the
  mathematical value \<open>q\<close> of the literal that was converted. ECMAScript then rounds that
  value to the nearest binary64; the rounding is not part of this development, and neither
  is the sign of zero. Rounding never produces NaN, so \<open>isNaN\<close> is exact.
\<close>

datatype number = NaN | Infinity | NegInfinity | Val rat

definition isNaN :: "number \<Rightarrow> bool" where
  "isNaN x \<longleftrightarrow> x = NaN"

definition is_digit :: "char \<Rightarrow> bool" where
  "is_digit c \<longleftrightarrow> c \<in> set ''0123456789''"

definition is_hex_digit :: "char \<Rightarrow> bool" where
  "is_hex_digit c \<longleftrightarrow> c \<in> set ''0123456789abcdefABCDEF''"

definition is_octal_digit :: "char \<Rightarrow> bool" where
  "is_octal_digit c \<longleftrightarrow> c \<in> set ''01234567''"

definition is_binary_digit :: "char \<Rightarrow> bool" where
  "is_binary_digit c \<longleftrightarrow> c \<in> set ''01''"

text \<open>The value of one digit in a base up to 16; letters count in either case.\<close>

definition digit_value :: "char \<Rightarrow> nat" where
  "digit_value c =
     (let n = (of_char c :: nat)
      in if 48 \<le> n \<and> n \<le> 57 then n - 48
         else if 97 \<le> n \<and> n \<le> 102 then n - 87
         else if 65 \<le> n \<and> n \<le> 70 then n - 55
         else 0)"

definition digits_value :: "nat \<Rightarrow> string \<Rightarrow> nat" where
  "digits_value base ds = foldl (\<lambda>acc c. base * acc + digit_value c) 0 ds"

text \<open>\<open>SignedInteger\<close>: decimal digits with an optional sign.\<close>

definition SignedInteger :: "string \<Rightarrow> int option" where
  "SignedInteger s =
     (case s of
        [] \<Rightarrow> None
      | c # r \<Rightarrow>
          if c = CHR ''+'' then
            (if r \<noteq> [] \<and> list_all is_digit r then Some (int (digits_value 10 r)) else None)
          else if c = CHR ''-'' then
            (if r \<noteq> [] \<and> list_all is_digit r then Some (- int (digits_value 10 r)) else None)
          else
            (if list_all is_digit s then Some (int (digits_value 10 s)) else None))"

text \<open>
  What follows the mantissa: nothing (exponent 0) or an \<open>ExponentPart\<close>, that is
  \<open>e\<close> or \<open>E\<close> and a \<open>SignedInteger\<close>.
\<close>

definition ExponentPart_opt :: "string \<Rightarrow> int option" where
  "ExponentPart_opt s =
     (case s of
        [] \<Rightarrow> Some 0
      | c # r \<Rightarrow> if c = CHR ''e'' \<or> c = CHR ''E'' then SignedInteger r else None)"

text \<open>
  \<open>StrUnsignedDecimalLiteral\<close> without \<open>Infinity\<close>: digits, an optional point with
  optional digits, an optional exponent; or a point, digits and an optional exponent.
  The result is the mathematical value, or \<^term>\<open>None\<close> when the string is not of
  that form.
\<close>

definition scale :: "rat \<Rightarrow> int \<Rightarrow> rat" where
  "scale q e = (if 0 \<le> e then q * 10 ^ nat e else q / 10 ^ nat (- e))"

definition UnsignedDecimal :: "string \<Rightarrow> rat option" where
  "UnsignedDecimal s =
     (let ip = takeWhile is_digit s; r1 = dropWhile is_digit s
      in case r1 of
           [] \<Rightarrow> if ip = [] then None else Some (of_nat (digits_value 10 ip))
         | c # r \<Rightarrow>
             if c = CHR ''.'' then
               (let fp = takeWhile is_digit r; r2 = dropWhile is_digit r
                in if ip = [] \<and> fp = [] then None
                   else (case ExponentPart_opt r2 of
                           None \<Rightarrow> None
                         | Some e \<Rightarrow>
                             Some (scale (of_nat (digits_value 10 ip)
                                          + of_nat (digits_value 10 fp) / 10 ^ length fp) e)))
             else if ip = [] then None
             else (case ExponentPart_opt r1 of
                     None \<Rightarrow> None
                   | Some e \<Rightarrow> Some (scale (of_nat (digits_value 10 ip)) e)))"

definition StrUnsignedDecimalLiteral :: "string \<Rightarrow> number option" where
  "StrUnsignedDecimalLiteral s =
     (if s = ''Infinity'' then Some Infinity else map_option Val (UnsignedDecimal s))"

definition negate :: "number \<Rightarrow> number" where
  "negate x = (case x of NaN \<Rightarrow> NaN | Infinity \<Rightarrow> NegInfinity
               | NegInfinity \<Rightarrow> Infinity | Val q \<Rightarrow> Val (- q))"

definition StrDecimalLiteral :: "string \<Rightarrow> number option" where
  "StrDecimalLiteral s =
     (case s of
        [] \<Rightarrow> None
      | c # r \<Rightarrow>
          if c = CHR ''+'' then StrUnsignedDecimalLiteral r
          else if c = CHR ''-'' then map_option negate (StrUnsignedDecimalLiteral r)
          else StrUnsignedDecimalLiteral s)"

text \<open>
  \<open>NonDecimalIntegerLiteral\<close>: \<open>0x\<close>, \<open>0o\<close> or \<open>0b\<close> (the letter in either case) and at
  least one digit of that base; no sign.
\<close>

definition NonDecimalIntegerLiteral :: "string \<Rightarrow> nat option" where
  "NonDecimalIntegerLiteral s =
     (case s of
        z # x # ds \<Rightarrow>
          if z = CHR ''0'' \<and> ds \<noteq> [] then
            (if (x = CHR ''x'' \<or> x = CHR ''X'') \<and> list_all is_hex_digit ds
               then Some (digits_value 16 ds)
             else if (x = CHR ''o'' \<or> x = CHR ''O'') \<and> list_all is_octal_digit ds
               then Some (digits_value 8 ds)
             else if (x = CHR ''b'' \<or> x = CHR ''B'') \<and> list_all is_binary_digit ds
               then Some (digits_value 2 ds)
             else None)
          else None
      | _ \<Rightarrow> None)"

text \<open>
  \<open>Number(s)\<close> for a string \<open>s\<close>: white space is stripped at both ends; what is left is
  empty (the number 0), a decimal literal, a non-decimal integer literal, or anything
  else (NaN).
\<close>

definition Number :: "string \<Rightarrow> number" where
  "Number s =
     (let t = trim s
      in if t = [] then Val 0
         else (case StrDecimalLiteral t of
                 Some v \<Rightarrow> v
               | None \<Rightarrow>
                   (case NonDecimalIntegerLiteral t of
                      Some n \<Rightarrow> Val (of_nat n)
                    | None \<Rightarrow> NaN)))"

subsection \<open>\<open>parseMessage\<close>\<close>

text \<open>
  One element of the series: the object literal of lines 182 to 187. The fields \<open>min\<close>
  and \<open>max\<close> of the source are \<open>min_f\<close> and \<open>max_f\<close> here. The time is the reading of
  the clock, in milliseconds.
\<close>

record sample =
  time :: nat
  min_f :: number
  max_f :: number
  average :: number

text \<open>
  Calling a method on \<open>undefined\<close> raises a \<open>TypeError\<close>; the source has no handler for
  it in \<open>parseMessage\<close> or in its callers.
\<close>

datatype error = TypeError

text \<open>
  The expression \<open>Number(messageValues[i].split(',')[1].trim())\<close> of lines 178 to 180.
  \<open>messageValues[i]\<close> is \<open>undefined\<close> when there are no more than \<open>i\<close> pieces, and
  \<open>[1]\<close> of the inner split is \<open>undefined\<close> when the piece has no comma.
\<close>

definition messageValue :: "string list \<Rightarrow> nat \<Rightarrow> error + number" where
  "messageValue messageValues i =
     (case at_index messageValues i of
        None \<Rightarrow> Inl TypeError
      | Some seg \<Rightarrow>
          (case at_index (split_str CHR '','' seg) 1 of
             None \<Rightarrow> Inl TypeError
           | Some v \<Rightarrow> Inr (Number (trim v))))"

text \<open>The test of line 176.\<close>

definition has_keywords :: "string \<Rightarrow> bool" where
  "has_keywords message =
     (let messageLower = toLowerCase message
      in includes_str messageLower ''average'' \<and> includes_str messageLower ''min''
         \<and> includes_str messageLower ''max'')"

text \<open>The state update of line 188, \<open>prev => [...prev, parsedMessage]\<close>.\<close>

definition append_series :: "sample list \<Rightarrow> sample \<Rightarrow> sample list" where
  "append_series prev parsedMessage = prev @ [parsedMessage]"

text \<open>
  \<open>parseMessage\<close> returns no value; its effect is on the state \<open>messages\<close>. The model
  takes the series before the call and returns the series after it, or the exception the
  call ends with. \<open>now\<close> is what \<open>new Date()\<close> reads at line 183.
\<close>

definition parseMessage :: "nat \<Rightarrow> string \<Rightarrow> sample list \<Rightarrow> error + sample list" where
  "parseMessage now message prev =
     (if has_keywords message then
        (let messageValues = split_str CHR '';'' (toLowerCase message)
         in case messageValue messageValues 0 of
              Inl e \<Rightarrow> Inl e
            | Inr messageAverage \<Rightarrow>
                (case messageValue messageValues 1 of
                   Inl e \<Rightarrow> Inl e
                 | Inr messageMin \<Rightarrow>
                     (case messageValue messageValues 2 of
                        Inl e \<Rightarrow> Inl e
                      | Inr messageMax \<Rightarrow>
                          if \<not> isNaN messageAverage \<and> \<not> isNaN messageMin \<and> \<not> isNaN messageMax
                          then Inr (append_series prev
                                 \<lparr>time = now, min_f = messageMin, max_f = messageMax,
                                  average = messageAverage\<rparr>)
                          else Inr prev)))
      else Inr prev)"

text \<open>
  The series after a call of \<open>parseMessage\<close>: the one it set, or the one there was when
  the call ended with an exception (line 188 was not reached then).
\<close>

definition series_after :: "sample list \<Rightarrow> error + sample list \<Rightarrow> sample list" where
  "series_after prev r = (case r of Inl e \<Rightarrow> prev | Inr s \<Rightarrow> s)"



subsection \<open>The component's state and the MQTT library\<close>

text \<open>
  What the component asks of the library, in the order of the calls: \<open>mqtt.connect\<close> with
  the URL and the client it returned, \<open>end(true)\<close> on a client with whether the call
  threw, and \<open>subscribe\<close> on a client with the topic. Clients are numbered in the order
  of their creation.
\<close>

datatype lib_call = MqttConnect string nat | ClientEnd nat bool | Subscribe nat string

text \<open>
  The state hooks of lines 81 to 95 that the source ever writes, the reference
  \<open>clientRef\<close>, and the calls made to the library so far.
\<close>

record app =
  brokerUrl :: string
  topic :: string
  isConnected :: bool
  status :: string
  latestRaw :: string
  latestTopic :: string
  latestTime :: "nat option"
  messages :: "sample list"
  clientRef :: "nat option"
  next_client :: nat
  calls :: "lib_call list"

definition init :: app where
  "init = \<lparr>brokerUrl = [], topic = [], isConnected = False, status = ''Idle'',
           latestRaw = [], latestTopic = [], latestTime = None, messages = [],
           clientRef = None, next_client = 0, calls = []\<rparr>"

text \<open>
  \<open>disconnect\<close>, lines 110 to 122. \<open>end_throws\<close> says whether \<open>c.end(true)\<close> throws; the
  \<open>catch\<close> of line 115 ignores it and the reference is cleared either way.
\<close>

definition disconnect :: "bool \<Rightarrow> app \<Rightarrow> app" where
  "disconnect end_throws st =
     (let st1 = (case clientRef st of
                   None \<Rightarrow> st
                 | Some c \<Rightarrow> st\<lparr>calls := calls st @ [ClientEnd c end_throws], clientRef := None\<rparr>)
      in st1\<lparr>isConnected := False, status := ''Disconnected''\<rparr>)"

text \<open>
  \<open>connect\<close>, lines 124 to 134; the handlers it registers on the new client are the
  functions further down. \<open>mqtt.connect\<close> is taken to return a new client at every
  call.
\<close>

definition connect :: "bool \<Rightarrow> app \<Rightarrow> app" where
  "connect end_throws st =
     (if \<not> startsWith (brokerUrl st) ''wss://'' then
        st\<lparr>status := ''Broker must use wss:// when app is served over HTTPS''\<rparr>
      else
        (let st1 = disconnect end_throws st;
             st2 = st1\<lparr>status := ''Connecting to '' @ brokerUrl st @ '' ...''\<rparr>;
             client = next_client st2
         in st2\<lparr>calls := calls st2 @ [MqttConnect (brokerUrl st) client],
                next_client := Suc client, clientRef := Some client\<rparr>))"

text \<open>
  The handlers of lines 136 to 171. \<open>client\<close> and \<open>t\<close> are the client and the topic that
  the closure holds; an error comes as the text \<open>err.message || String(err)\<close>.
\<close>

definition on_connect :: "nat \<Rightarrow> string \<Rightarrow> app \<Rightarrow> app" where
  "on_connect client t st =
     st\<lparr>isConnected := True, status := ''Connected. Subscribing...'',
        calls := calls st @ [Subscribe client t]\<rparr>"

definition on_subscribe :: "string option \<Rightarrow> string \<Rightarrow> app \<Rightarrow> app" where
  "on_subscribe err t st =
     (case err of
        Some m \<Rightarrow> st\<lparr>status := ''Subscribe error: '' @ m\<rparr>
      | None \<Rightarrow> st\<lparr>status := ''Subscribed to: '' @ t\<rparr>)"

definition on_reconnect :: "app \<Rightarrow> app" where
  "on_reconnect st = st\<lparr>status := ''Reconnecting...''\<rparr>"

definition on_close :: "app \<Rightarrow> app" where
  "on_close st = st\<lparr>isConnected := False, status := ''Connection closed''\<rparr>"

definition on_offline :: "app \<Rightarrow> app" where
  "on_offline st = st\<lparr>isConnected := False, status := ''Offline''\<rparr>"

definition on_error :: "string \<Rightarrow> app \<Rightarrow> app" where
  "on_error m st = st\<lparr>status := ''Error: '' @ m\<rparr>"

text \<open>
  The message handler: \<open>received\<close> is the clock at line 167, \<open>now\<close> the clock inside
  \<open>parseMessage\<close>. The three updates before the call stay when the call throws.
\<close>

definition on_message :: "string \<Rightarrow> string \<Rightarrow> nat \<Rightarrow> nat \<Rightarrow> app \<Rightarrow> app" where
  "on_message msgTopic raw received now st =
     st\<lparr>latestTopic := msgTopic, latestTime := Some received, latestRaw := raw,
        messages := series_after (messages st) (parseMessage now raw (messages st))\<rparr>"

text \<open>The decimal text of a natural number, as a template literal prints it.\<close>

fun String_nat :: "nat \<Rightarrow> string" where
  "String_nat n =
     (if n < 10 then [char_of (48 + n)]
      else String_nat (n div 10) @ [char_of (48 + n mod 10)])"

text \<open>
  \<open>testMessage\<close>, lines 193 to 199; the three arguments are the results of the
  \<open>Math.floor\<close> expressions.
\<close>

definition testMessage :: "nat \<Rightarrow> nat \<Rightarrow> nat \<Rightarrow> nat \<Rightarrow> app \<Rightarrow> app" where
  "testMessage avgTest minTest maxTest now st =
     st\<lparr>messages :=
          series_after (messages st)
            (parseMessage now
               (''Average, '' @ String_nat avgTest @ ''; Min, '' @ String_nat minTest
                @ ''; Max, '' @ String_nat maxTest @ '';'')
               (messages st))\<rparr>"

text \<open>Everything that can happen to the component, and a run of such events.\<close>

datatype event =
    SetBrokerUrl string
  | SetTopic string
  | ClickConnect bool
  | ClickDisconnect bool
  | ClientConnect nat string
  | SubscribeDone "string option" string
  | ClientReconnect
  | ClientClose
  | ClientOffline
  | ClientError string
  | ClientMessage string string nat nat
  | ClickTest nat nat nat nat

fun step :: "app \<Rightarrow> event \<Rightarrow> app" where
  "step st (SetBrokerUrl u) = st\<lparr>brokerUrl := u\<rparr>"
| "step st (SetTopic t) = st\<lparr>topic := t\<rparr>"
| "step st (ClickConnect end_throws) = connect end_throws st"
| "step st (ClickDisconnect end_throws) = disconnect end_throws st"
| "step st (ClientConnect client t) = on_connect client t st"
| "step st (SubscribeDone err t) = on_subscribe err t st"
| "step st ClientReconnect = on_reconnect st"
| "step st ClientClose = on_close st"
| "step st ClientOffline = on_offline st"
| "step st (ClientError m) = on_error m st"
| "step st (ClientMessage msgTopic raw received now) = on_message msgTopic raw received now st"
| "step st (ClickTest a m M now) = testMessage a m M now st"

definition run :: "event list \<Rightarrow> app" where
  "run es = foldl step init es"

text \<open>
  The clients the component holds: those \<open>mqtt.connect\<close> returned and on which it has not
  called \<open>end(true)\<close>. What the library does with a client whose \<open>end\<close> threw is not in
  the source.
\<close>

fun created :: "lib_call list \<Rightarrow> nat list" where
  "created [] = []"
| "created (MqttConnect u c # cs) = c # created cs"
| "created (_ # cs) = created cs"

fun ended :: "lib_call list \<Rightarrow> nat list" where
  "ended [] = []"
| "ended (ClientEnd c b # cs) = c # ended cs"
| "ended (_ # cs) = ended cs"

definition live :: "app \<Rightarrow> nat list" where
  "live st = filter (\<lambda>c. c \<notin> set (ended (calls st))) (created (calls st))"

subsection \<open>Notions of the specification\<close>

text \<open>The text of a segment after its first comma.\<close>

definition after_first_comma :: "string \<Rightarrow> string" where
  "after_first_comma seg = drop 1 (dropWhile (\<lambda>c. c \<noteq> CHR '','') seg)"

text \<open>The text of a segment between its first comma and the next one, or the end.\<close>

definition between_commas :: "string \<Rightarrow> string" where
  "between_commas seg = takeWhile (\<lambda>c. c \<noteq> CHR '','') (after_first_comma seg)"

text \<open>
  The text of the value at a position of a payload: the segment at that position, cut
  between its first comma and the next, without the white space around it. There is no such
  text when the payload has too few segments or the segment has no comma.
\<close>

definition value_text :: "string \<Rightarrow> nat \<Rightarrow> string option" where
  "value_text payload i =
     (case at_index (split_str CHR '';'' payload) i of
        None \<Rightarrow> None
      | Some seg \<Rightarrow> if CHR '','' \<in> set seg then Some (trim (between_commas seg)) else None)"




definition blank :: "string \<Rightarrow> bool" where
  "blank s = list_all is_space s"

text \<open>The field of a sample that belongs to a position of the payload.\<close>

definition field_at :: "nat \<Rightarrow> sample \<Rightarrow> number" where
  "field_at i s = (if i = 0 then average s else if i = 1 then min_f s else max_f s)"



section \<open>Properties\<close>

subsection \<open>Characters and lower case\<close>

text \<open>
  Lower-casing moves only the capital letters; separators, digits, signs and white space stay what they are.
\<close>

lemma of_char_lower_char:
  "(of_char (lower_char c) :: nat) =
     (if (65 \<le> (of_char c :: nat) \<and> (of_char c :: nat) \<le> 90)
         \<or> (192 \<le> (of_char c :: nat) \<and> (of_char c :: nat) \<le> 222 \<and> (of_char c :: nat) \<noteq> 215)
      then of_char c + 32 else of_char c)"
  by (simp add: lower_char_def Let_def)

lemma lower_char_eq_iff:
  assumes "(of_char x :: nat) < 65 \<or> (122 < (of_char x :: nat) \<and> (of_char x :: nat) < 192)"
  shows "lower_char c = x \<longleftrightarrow> c = x"
proof -
  have "lower_char c = x \<longleftrightarrow> (of_char (lower_char c) :: nat) = of_char x"
    by simp
  also have "\<dots> \<longleftrightarrow> (of_char c :: nat) = of_char x"
    using assms by (auto simp: of_char_lower_char)
  finally show ?thesis by simp
qed

lemma lower_char_semicolon [simp]: "lower_char c = CHR '';'' \<longleftrightarrow> c = CHR '';''"
  by (rule lower_char_eq_iff) simp

lemma lower_char_comma [simp]: "lower_char c = CHR '','' \<longleftrightarrow> c = CHR '',''"
  by (rule lower_char_eq_iff) simp

lemma is_space_lower_char [simp]: "is_space (lower_char c) = is_space c"
  by (simp add: is_space_def lower_char_eq_iff)

lemma is_digit_lower_char [simp]: "is_digit (lower_char c) = is_digit c"
  by (simp add: is_digit_def lower_char_eq_iff)


lemma not_space_sep [simp]: "\<not> is_space CHR '';''" "\<not> is_space CHR '',''"
  by (simp_all add: is_space_def)

subsection \<open>Splitting, trimming and searching\<close>

text \<open>
  The pieces of a split, what trimming leaves of a padded text, and \<open>includes\<close> as the presence of a substring.
\<close>

lemma split_str_not_Nil [simp]: "split_str sep s \<noteq> []"
  by (induction s) (auto split: list.splits)

lemma split_str_no_sep: "sep \<notin> set s \<Longrightarrow> split_str sep s = [s]"
  by (induction s) auto

lemma split_str_append_sep:
  "sep \<notin> set xs \<Longrightarrow> split_str sep (xs @ sep # ys) = xs # split_str sep ys"
  by (induction xs) auto


lemma split_str_decompose:
  "split_str sep s =
     (if sep \<in> set s
      then takeWhile (\<lambda>c. c \<noteq> sep) s # split_str sep (drop 1 (dropWhile (\<lambda>c. c \<noteq> sep) s))
      else [s])"
proof (cases "sep \<in> set s")
  case False
  then show ?thesis by (simp add: split_str_no_sep)
next
  case True
  define xs where "xs = takeWhile (\<lambda>c. c \<noteq> sep) s"
  define ys where "ys = drop 1 (dropWhile (\<lambda>c. c \<noteq> sep) s)"
  have nonempty: "dropWhile (\<lambda>c. c \<noteq> sep) s \<noteq> []"
    using True by auto
  then have "hd (dropWhile (\<lambda>c. c \<noteq> sep) s) = sep"
    using hd_dropWhile [of "\<lambda>c. c \<noteq> sep" s] by simp
  with nonempty have "dropWhile (\<lambda>c. c \<noteq> sep) s = sep # ys"
    unfolding ys_def by (cases "dropWhile (\<lambda>c. c \<noteq> sep) s") auto
  then have s: "s = xs @ sep # ys"
    unfolding xs_def by (metis takeWhile_dropWhile_id)
  have "sep \<notin> set xs"
    unfolding xs_def by (auto dest: set_takeWhileD)
  then have "split_str sep (xs @ sep # ys) = xs # split_str sep ys"
    by (rule split_str_append_sep)
  with True s show ?thesis
    unfolding xs_def ys_def by simp
qed

lemma hd_split_str: "hd (split_str sep s) = takeWhile (\<lambda>c. c \<noteq> sep) s"
  by (induction s) (auto split: list.splits)

lemma at_index_split_comma:
  "at_index (split_str CHR '','' seg) 1 =
     (if CHR '','' \<in> set seg then Some (between_commas seg) else None)"
proof (cases "CHR '','' \<in> set seg")
  case False
  then show ?thesis by (simp add: split_str_no_sep at_index_def)
next
  case True
  let ?rest = "drop 1 (dropWhile (\<lambda>c. c \<noteq> CHR '','') seg)"
  have "split_str CHR '','' seg = takeWhile (\<lambda>c. c \<noteq> CHR '','') seg # split_str CHR '','' ?rest"
    using True split_str_decompose [of "CHR '',''" seg] by simp
  moreover have "hd (split_str CHR '','' ?rest) = takeWhile (\<lambda>c. c \<noteq> CHR '','') ?rest"
    by (rule hd_split_str)
  moreover have "split_str CHR '','' ?rest \<noteq> []" by simp
  ultimately show ?thesis
    using True
    by (cases "split_str CHR '','' ?rest")
       (simp_all add: at_index_def between_commas_def after_first_comma_def)
qed


lemma trim_blank:
  assumes "blank s"
  shows "trim s = []"
proof -
  have d: "dropWhile is_space s = []"
    using assms by (simp add: blank_def list_all_iff)
  show ?thesis unfolding trim_def d by simp
qed






subsection \<open>Decimal and hexadecimal literals\<close>

text \<open>
  A decimal numeral reads the same after lower-casing and is made of digits, signs, the point and the exponent letter only; a hexadecimal literal keeps its value.
\<close>

lemma lower_char_no_capital:
  assumes "65 \<le> (of_char x :: nat)" "(of_char x :: nat) \<le> 90"
  shows "lower_char c \<noteq> x"
proof
  assume "lower_char c = x"
  then have "(of_char (lower_char c) :: nat) = of_char x" by simp
  with assms show False by (auto simp: of_char_lower_char split: if_splits)
qed

lemma lower_char_eq_letter:
  assumes "(of_char x :: nat) = of_char y + 32" "65 \<le> (of_char y :: nat)" "(of_char y :: nat) \<le> 90"
  shows "lower_char c = x \<longleftrightarrow> c = x \<or> c = y"
proof -
  have "lower_char c = x \<longleftrightarrow> (of_char (lower_char c) :: nat) = of_char x"
    by simp
  also have "\<dots> \<longleftrightarrow> (of_char c :: nat) = of_char x \<or> (of_char c :: nat) = of_char y"
    using assms by (auto simp: of_char_lower_char)
  finally show ?thesis by simp
qed

lemma lower_char_eq_e: "lower_char c = CHR ''e'' \<longleftrightarrow> c = CHR ''e'' \<or> c = CHR ''E''"
  by (rule lower_char_eq_letter) simp_all

lemma lower_char_exponent [simp]:
  "lower_char c = CHR ''e'' \<or> lower_char c = CHR ''E'' \<longleftrightarrow> c = CHR ''e'' \<or> c = CHR ''E''"
  using lower_char_no_capital [of "CHR ''E''" c] by (simp add: lower_char_eq_e)

lemma lower_char_plus [simp]: "lower_char c = CHR ''+'' \<longleftrightarrow> c = CHR ''+''"
  by (rule lower_char_eq_iff) simp

lemma lower_char_minus [simp]: "lower_char c = CHR ''-'' \<longleftrightarrow> c = CHR ''-''"
  by (rule lower_char_eq_iff) simp

lemma lower_char_point [simp]: "lower_char c = CHR ''.'' \<longleftrightarrow> c = CHR ''.''"
  by (rule lower_char_eq_iff) simp


lemma list_all_digit_lower [simp]: "list_all is_digit (map lower_char r) = list_all is_digit r"
  by (simp add: list_all_iff)

























subsection \<open>The values of a payload\<close>


lemma at_index_split_comma_Suc:
  "at_index (split_str CHR '','' seg) (Suc 0) =
     (if CHR '','' \<in> set seg then Some (between_commas seg) else None)"
  using at_index_split_comma [of seg] by simp

lemma messageValue_value_text:
  "messageValue (split_str CHR '';'' s) i =
     (case value_text s i of None \<Rightarrow> Inl TypeError | Some v \<Rightarrow> Inr (Number v))"
  by (simp add: messageValue_def value_text_def at_index_split_comma_Suc split: option.splits)


lemma comma_in_lower [simp]: "CHR '','' \<in> lower_char ` S \<longleftrightarrow> CHR '','' \<in> S"
proof
  assume "CHR '','' \<in> lower_char ` S"
  then obtain c where "c \<in> S" "lower_char c = CHR '',''" by (metis imageE)
  then show "CHR '','' \<in> S" by simp
next
  assume "CHR '','' \<in> S"
  moreover have "lower_char CHR '','' = CHR '',''" by simp
  ultimately show "CHR '','' \<in> lower_char ` S" by (metis imageI)
qed


lemma parseMessage_eq:
  "parseMessage now message prev =
     (if has_keywords message then
        (case value_text (toLowerCase message) 0 of
           None \<Rightarrow> Inl TypeError
         | Some v0 \<Rightarrow>
             (case value_text (toLowerCase message) 1 of
                None \<Rightarrow> Inl TypeError
              | Some v1 \<Rightarrow>
                  (case value_text (toLowerCase message) 2 of
                     None \<Rightarrow> Inl TypeError
                   | Some v2 \<Rightarrow>
                       if Number v0 \<noteq> NaN \<and> Number v1 \<noteq> NaN \<and> Number v2 \<noteq> NaN
                       then Inr (prev @ [\<lparr>time = now, min_f = Number v1, max_f = Number v2,
                                          average = Number v0\<rparr>])
                       else Inr prev)))
      else Inr prev)"
  by (simp add: parseMessage_def messageValue_value_text isNaN_def append_series_def Let_def
        split: option.splits)

lemma parseMessage_values:
  assumes "has_keywords message"
    and "value_text (toLowerCase message) 0 = Some v0"
    and "value_text (toLowerCase message) 1 = Some v1"
    and "value_text (toLowerCase message) 2 = Some v2"
  shows "parseMessage now message prev =
           (if Number v0 \<noteq> NaN \<and> Number v1 \<noteq> NaN \<and> Number v2 \<noteq> NaN
            then Inr (prev @ [\<lparr>time = now, min_f = Number v1, max_f = Number v2,
                               average = Number v0\<rparr>])
            else Inr prev)"
  using assms by (simp add: parseMessage_eq)






lemma blank_plain:
  assumes "blank w"
  shows "CHR '','' \<notin> set w" "CHR '';'' \<notin> set w"
proof -
  have "\<forall>c\<in>set w. is_space c" using assms by (simp add: blank_def list_all_iff)
  then show "CHR '','' \<notin> set w" "CHR '';'' \<notin> set w"
    using not_space_sep by blast+
qed





lemma all_less_3: "(\<forall>j<3. P j) \<longleftrightarrow> P 0 \<and> P (Suc 0) \<and> P 2"
proof -
  have "{j::nat. j < 3} = {0, Suc 0, 2}" by auto
  then show ?thesis by (metis (no_types, lifting) insert_iff mem_Collect_eq singletonD)
qed

lemma value_text_at:
  assumes "at_index (split_str CHR '';'' s) i = Some seg" "CHR '','' \<in> set seg"
  shows "value_text s i = Some (trim (between_commas seg))"
  using assms by (simp add: value_text_def)

lemma trim_Nil [simp]: "trim [] = []"
  by (simp add: trim_def)

lemma blank_value:
  assumes "blank (after_first_comma seg)"
  shows "Number (trim (between_commas seg)) = Val 0"
proof -
  have "CHR '','' \<notin> set (after_first_comma seg)"
    using assms by (rule blank_plain(1))
  then have "between_commas seg = after_first_comma seg"
    by (auto simp: between_commas_def takeWhile_eq_all_conv)
  then show ?thesis
    using assms by (simp add: Number_def trim_blank)
qed

subsection \<open>Payloads of the expected form\<close>





subsection \<open>Positions, not labels\<close>

text \<open>
  C2, as amended. For a payload with the three keywords whose lower-cased text has at least
  three segments with a comma each, segment 0 gives the average, segment 1 the minimum and
  segment 2 the maximum, whatever the labels say; the text converted for a segment is the
  part between its first comma and the next comma (or the end of the segment when there is
  no other comma), trimmed. The sample is appended when the three numbers are not NaN and
  the series is left alone otherwise.
\<close>

theorem parseMessage_positional:
  assumes "has_keywords message"
    and "at_index (split_str CHR '';'' (toLowerCase message)) 0 = Some s0"
        "at_index (split_str CHR '';'' (toLowerCase message)) 1 = Some s1"
        "at_index (split_str CHR '';'' (toLowerCase message)) 2 = Some s2"
    and "CHR '','' \<in> set s0" "CHR '','' \<in> set s1" "CHR '','' \<in> set s2"
  shows "parseMessage now message prev
           = (if Number (trim (between_commas s0)) \<noteq> NaN
                 \<and> Number (trim (between_commas s1)) \<noteq> NaN
                 \<and> Number (trim (between_commas s2)) \<noteq> NaN
              then Inr (append_series prev
                          \<lparr>time = now, min_f = Number (trim (between_commas s1)),
                           max_f = Number (trim (between_commas s2)),
                           average = Number (trim (between_commas s0))\<rparr>)
              else Inr prev)"
  using parseMessage_values
          [OF assms(1) value_text_at [OF assms(2,5)] value_text_at [OF assms(3,6)]
              value_text_at [OF assms(4,7)], of now prev]
  by (simp add: append_series_def)


theorem parseMessage_positional_witness:
  "has_keywords ''Max, 1; Average, 2,9; Min, 3''
   \<and> at_index (split_str CHR '';'' (toLowerCase ''Max, 1; Average, 2,9; Min, 3'')) 0
       = Some ''max, 1''
   \<and> at_index (split_str CHR '';'' (toLowerCase ''Max, 1; Average, 2,9; Min, 3'')) 1
       = Some '' average, 2,9''
   \<and> at_index (split_str CHR '';'' (toLowerCase ''Max, 1; Average, 2,9; Min, 3'')) 2
       = Some '' min, 3''
   \<and> parseMessage 4 ''Max, 1; Average, 2,9; Min, 3'' []
       = Inr [\<lparr>time = 4, min_f = Val 2, max_f = Val 3, average = Val 1\<rparr>]"
proof -
  have k: "has_keywords ''Max, 1; Average, 2,9; Min, 3''" by code_simp
  have s0: "at_index (split_str CHR '';'' (toLowerCase ''Max, 1; Average, 2,9; Min, 3'')) 0
              = Some ''max, 1''" by code_simp
  have s1: "at_index (split_str CHR '';'' (toLowerCase ''Max, 1; Average, 2,9; Min, 3'')) 1
              = Some '' average, 2,9''" by code_simp
  have s2: "at_index (split_str CHR '';'' (toLowerCase ''Max, 1; Average, 2,9; Min, 3'')) 2
              = Some '' min, 3''" by code_simp
  have c: "CHR '','' \<in> set ''max, 1''" "CHR '','' \<in> set '' average, 2,9''"
    "CHR '','' \<in> set '' min, 3''" by simp_all
  have n: "Number (trim (between_commas ''max, 1'')) = Val 1"
    "Number (trim (between_commas '' average, 2,9'')) = Val 2"
    "Number (trim (between_commas '' min, 3'')) = Val 3" by code_simp+
  show ?thesis
    using parseMessage_positional [OF k s0 s1 s2 c, of 4 "[]"] k s0 s1 s2
    by (simp add: n append_series_def)
qed


text \<open>
  The claim as written takes the whole text after the first comma. For the payload below
  that text is \<open>1,5\<close>, which is not a number, yet the sample is accepted with average 1.
\<close>

theorem parseMessage_value_ends_at_second_comma:
  "has_keywords ''average,1,5;min,2;max,3''
   \<and> split_str CHR '';'' (toLowerCase ''average,1,5;min,2;max,3'')
       = [''average,1,5'', ''min,2'', ''max,3'']
   \<and> Number (trim (after_first_comma ''average,1,5'')) = NaN
   \<and> parseMessage 0 ''average,1,5;min,2;max,3'' []
       = Inr [\<lparr>time = 0, min_f = Val 2, max_f = Val 3, average = Val 1\<rparr>]"
  by code_simp


subsection \<open>A payload with a missing segment or comma\<close>

text \<open>
  Whenever a payload has the keywords and one of the first three values is missing, the
  call ends with the exception, whatever the other values are.
\<close>

lemma parseMessage_missing_value_throws:
  assumes "has_keywords message" "i < 3" "value_text (toLowerCase message) i = None"
  shows "parseMessage now message prev = Inl TypeError"
proof -
  from \<open>i < 3\<close> consider "i = 0" | "i = 1" | "i = 2" by linarith
  then show ?thesis
    using assms(1,3) by cases (auto simp: parseMessage_eq split: option.splits)
qed


text \<open>
  C3. The payload \<open>average min max\<close> has the three keywords and one segment without a
  comma: \<open>messageValues[0].split(',')[1]\<close> is \<open>undefined\<close>, and the call of \<open>trim\<close> on it
  ends \<open>parseMessage\<close> with a \<open>TypeError\<close> instead of a normal return.
\<close>

theorem parseMessage_no_comma_throws:
  "parseMessage 0 ''average min max'' [] = Inl TypeError"
  by code_simp


subsection \<open>Rejected payloads\<close>





subsection \<open>The series grows by appending\<close>

text \<open>
  C5. For every series and every sample, the update of line 188 gives a series that is one
  element longer, starts with the elements of the old series in their order and ends with
  the new sample: nothing is dropped, merged or capped.
\<close>

theorem append_series_additive:
  "length (append_series series s) = length series + 1
   \<and> take (length series) (append_series series s) = series
   \<and> drop (length series) (append_series series s) = [s]
   \<and> last (append_series series s) = s"
  by (simp add: append_series_def)


subsection \<open>A sequence of calls\<close>







subsection \<open>The scheme check of \<open>connect\<close>\<close>

text \<open>
  C7. When the broker URL does not start with \<open>wss://\<close>, \<open>connect\<close> only sets the status
  to the text about the scheme: no call reaches the library, so no client is created, and
  the client reference, the connected flag and every other part of the state stay as they
  were. The source makes the check on every page, a securely served one included.
\<close>

theorem connect_rejects_other_schemes:
  assumes "\<not> startsWith (brokerUrl st) ''wss://''"
  shows "connect end_throws st
           = st\<lparr>status := ''Broker must use wss:// when app is served over HTTPS''\<rparr>
         \<and> calls (connect end_throws st) = calls st
         \<and> next_client (connect end_throws st) = next_client st
         \<and> clientRef (connect end_throws st) = clientRef st
         \<and> isConnected (connect end_throws st) = isConnected st
         \<and> live (connect end_throws st) = live st"
  using assms by (simp add: connect_def live_def)


theorem connect_rejects_other_schemes_witness:
  "\<not> startsWith (brokerUrl (run [SetBrokerUrl ''ws://broker.example.com''])) ''wss://''
   \<and> connect False (run [SetBrokerUrl ''ws://broker.example.com''])
       = (run [SetBrokerUrl ''ws://broker.example.com''])
           \<lparr>status := ''Broker must use wss:// when app is served over HTTPS''\<rparr>
   \<and> calls (connect False (run [SetBrokerUrl ''ws://broker.example.com''])) = []"
  using connect_rejects_other_schemes
          [of "run [SetBrokerUrl ''ws://broker.example.com'']" False]
  by (simp add: run_def init_def startsWith_def)


subsection \<open>One client at a time\<close>

lemma created_append [simp]: "created (xs @ ys) = created xs @ created ys"
  by (induction xs rule: created.induct) simp_all


lemma ended_append [simp]: "ended (xs @ ys) = ended xs @ ended ys"
  by (induction xs rule: ended.induct) simp_all




















subsection \<open>An empty value\<close>

text \<open>
  C9, as amended. For a payload with the three keywords whose lower-cased text has at least
  three segments with a comma each: when one of the three has nothing or only white space
  after its first comma and the values of the other two convert to numbers, the payload is
  accepted and the sample has 0 in the field of that position.
\<close>

theorem parseMessage_blank_value_is_zero:
  assumes "has_keywords message"
    and segments: "\<forall>j<3. at_index (split_str CHR '';'' (toLowerCase message)) j = Some (seg j)
                         \<and> CHR '','' \<in> set (seg j)"
    and "i < 3" "blank (after_first_comma (seg i))"
    and others: "\<forall>j<3. j \<noteq> i \<longrightarrow> Number (trim (between_commas (seg j))) \<noteq> NaN"
  shows "\<exists>s. parseMessage now message prev = Inr (append_series prev s)
             \<and> field_at i s = Val 0 \<and> time s = now"
proof -
  let ?n = "\<lambda>j. Number (trim (between_commas (seg j)))"
  have zero: "?n i = Val 0"
    using assms(4) by (rule blank_value)
  have "\<forall>j<3. ?n j \<noteq> NaN"
    using others zero by (metis number.distinct(5))
  then have ok: "?n 0 \<noteq> NaN" "?n (Suc 0) \<noteq> NaN" "?n 2 \<noteq> NaN"
    by (simp_all add: all_less_3)
  have at: "at_index (split_str CHR '';'' (toLowerCase message)) 0 = Some (seg 0)"
    "at_index (split_str CHR '';'' (toLowerCase message)) 1 = Some (seg 1)"
    "at_index (split_str CHR '';'' (toLowerCase message)) 2 = Some (seg 2)"
    and comma: "CHR '','' \<in> set (seg 0)" "CHR '','' \<in> set (seg 1)" "CHR '','' \<in> set (seg 2)"
    using segments by (simp_all add: all_less_3)
  have "parseMessage now message prev
          = Inr (append_series prev \<lparr>time = now, min_f = ?n 1, max_f = ?n 2, average = ?n 0\<rparr>)"
    using parseMessage_values
            [OF assms(1) value_text_at [OF at(1) comma(1)] value_text_at [OF at(2) comma(2)]
                value_text_at [OF at(3) comma(3)], of now prev] ok
    by (simp add: append_series_def)
  moreover have "field_at i \<lparr>time = now, min_f = ?n 1, max_f = ?n 2, average = ?n 0\<rparr> = Val 0"
  proof -
    from \<open>i < 3\<close> consider "i = 0" | "i = 1" | "i = 2" by linarith
    then show ?thesis using zero by cases (simp_all add: field_at_def)
  qed
  ultimately show ?thesis
    by (intro exI [of _ "\<lparr>time = now, min_f = ?n 1, max_f = ?n 2, average = ?n 0\<rparr>"]) simp
qed


theorem parseMessage_blank_value_is_zero_witness:
  "has_keywords ''Average, ; Min, 40; Max, 150;''
   \<and> blank (after_first_comma ''average, '')
   \<and> (\<exists>s. parseMessage 2 ''Average, ; Min, 40; Max, 150;'' [] = Inr (append_series [] s)
            \<and> field_at 0 s = Val 0 \<and> time s = 2)"
proof -
  let ?seg = "\<lambda>j. [''average, '', '' min, 40'', '' max, 150'', ''''] ! j"
  have k: "has_keywords ''Average, ; Min, 40; Max, 150;''" by code_simp
  have s: "split_str CHR '';'' (toLowerCase ''Average, ; Min, 40; Max, 150;'')
             = [''average, '', '' min, 40'', '' max, 150'', '''']" by code_simp
  have segments: "\<forall>j<3. at_index (split_str CHR '';'' (toLowerCase ''Average, ; Min, 40; Max, 150;'')) j
                     = Some (?seg j) \<and> CHR '','' \<in> set (?seg j)"
    unfolding s by (simp add: all_less_3 at_index_def)
  have b: "blank (after_first_comma (?seg 0))" by code_simp
  have n: "Number (trim (between_commas '' min, 40'')) = Val 40"
    "Number (trim (between_commas '' max, 150'')) = Val 150" by code_simp+
  have others: "\<forall>j<3. j \<noteq> 0 \<longrightarrow> Number (trim (between_commas (?seg j))) \<noteq> NaN"
    by (simp add: all_less_3 n)
  have "blank (after_first_comma ''average, '')" using b by simp
  then show ?thesis
    using parseMessage_blank_value_is_zero [OF k segments _ b others, of 2 "[]"] k
    by simp
qed


text \<open>
  The claim as written accepts every such payload. The one below has an empty first value
  and a second value that is not a number; it is dropped.
\<close>

theorem parseMessage_blank_value_rejected:
  "has_keywords ''average,;min,abc;max,1''
   \<and> split_str CHR '';'' (toLowerCase ''average,;min,abc;max,1'')
       = [''average,'', ''min,abc'', ''max,1'']
   \<and> blank (after_first_comma ''average,'')
   \<and> parseMessage 0 ''average,;min,abc;max,1'' [] = Inr []"
  by code_simp


subsection \<open>Hexadecimal values\<close>




end
